theory Spec2Isabelle
  imports Complex_Main
begin

section \<open>Python values\<close>

text \<open>
  A Python \<open>str\<close> is a sequence of Unicode code points; a \<open>bytes\<close> object is a
  sequence of bytes. String literals of the source are written \<open>py ''...''\<close>.
\<close>

type_synonym pystr = "nat list"
type_synonym pybytes = "char list"

definition py :: "string \<Rightarrow> pystr" where
  "py lit = map of_char lit"

text \<open>
  A float is kept by its value; the two infinities and NaN are values of their own.
  The boolean of \<open>Infinite\<close> is the sign (\<open>True\<close> for the negative one).
\<close>

datatype pyfloat = Finite real | Infinite bool | NaN

text \<open>
  The values a settings mapping (\<open>dict[str, Any]\<close>) or the vendor's stream can hold.
  \<open>PObject b\<close> is an object of any other class, known by its truth value \<open>b\<close>.
\<close>

datatype pyval =
    PNone
  | PBool bool
  | PInt int
  | PFloat pyfloat
  | PStr pystr
  | PBytes pybytes
  | PObject bool

text \<open>Truth value testing, as \<open>not x\<close>, \<open>x or y\<close> and \<open>if x\<close> use it.\<close>

fun truthy :: "pyval \<Rightarrow> bool" where
  "truthy PNone = False"
| "truthy (PBool b) = b"
| "truthy (PInt i) = (i \<noteq> 0)"
| "truthy (PFloat f) = (f \<noteq> Finite 0)"
| "truthy (PStr s) = (s \<noteq> [])"
| "truthy (PBytes b) = (b \<noteq> [])"
| "truthy (PObject b) = b"

definition py_or :: "pyval \<Rightarrow> pyval \<Rightarrow> pyval" where
  "py_or x y = (if truthy x then x else y)"

fun isinstance_bytes :: "pyval \<Rightarrow> bool" where
  "isinstance_bytes (PBytes b) = True"
| "isinstance_bytes v = False"

text \<open>
  \<open>str.isspace\<close> on one code point (the white space table of CPython), and
  \<open>str.strip()\<close> with no argument, which removes the white space at both ends.
\<close>

definition isspace :: "nat \<Rightarrow> bool" where
  "isspace c \<longleftrightarrow>
     (0x09 \<le> c \<and> c \<le> 0x0D) \<or> (0x1C \<le> c \<and> c \<le> 0x20) \<or> c = 0x85 \<or> c = 0xA0 \<or>
     c = 0x1680 \<or> (0x2000 \<le> c \<and> c \<le> 0x200A) \<or> c = 0x2028 \<or> c = 0x2029 \<or>
     c = 0x202F \<or> c = 0x205F \<or> c = 0x3000"

definition strip :: "pystr \<Rightarrow> pystr" where
  "strip s = rev (dropWhile isspace (rev (dropWhile isspace s)))"

text \<open>
  A settings mapping is an association list read through \<open>dict.get(key, default)\<close>;
  the first binding of a key is the one the dictionary holds.
\<close>

type_synonym settings = "(pystr \<times> pyval) list"

definition dict_get :: "settings \<Rightarrow> pystr \<Rightarrow> pyval \<Rightarrow> pyval" where
  "dict_get d k dflt = (case map_of d k of None \<Rightarrow> dflt | Some v \<Rightarrow> v)"

section \<open>Exceptions\<close>

text \<open>
  An instance of \<open>Exception\<close>: the name of its class, whether the class is
  \<open>ImportError\<close> or derives from it (what \<open>except ImportError\<close> tests), and the
  text \<open>str(e)\<close> that an f-string prints.
\<close>

datatype pyexc = PyExc (exc_class: pystr) (is_import_error: bool) (exc_str: pystr)

definition ValueError :: "pystr \<Rightarrow> pyexc" where
  "ValueError msg = PyExc (py ''ValueError'') False msg"

definition ImportError :: "pystr \<Rightarrow> pyexc" where
  "ImportError msg = PyExc (py ''ImportError'') True msg"

text \<open>
  The builtin \<open>float(v)\<close>. A float is returned as it is. What the builtin does with any
  other argument (parsing a string, rounding an integer, raising \<open>TypeError\<close>,
  \<open>ValueError\<close> or \<open>OverflowError\<close>) is the parameter \<open>conv\<close>.
\<close>

definition py_float :: "(pyval \<Rightarrow> pyexc + pyfloat) \<Rightarrow> pyval \<Rightarrow> pyexc + pyfloat" where
  "py_float conv v = (case v of PFloat x \<Rightarrow> Inr x | _ \<Rightarrow> conv v)"

section \<open>The vendor library and the observable events\<close>

text \<open>A vendor client handle is known by its identity.\<close>

type_synonym client = nat

text \<open>\<open>io.BytesIO(wav_data)\<close> with its \<open>name\<close> attribute.\<close>

record bytes_io =
  file_content :: pybytes
  file_name :: pystr

text \<open>
  The keyword arguments of \<open>client.speech_to_text.convert\<close>. The key
  \<open>language_code\<close> may be absent from the dictionary: \<open>None\<close> here.
\<close>

record stt_kwargs =
  kw_file :: bytes_io
  kw_model_id :: pyval
  kw_language_code :: "pyval option"

record voice_settings =
  vs_stability :: pyval
  vs_similarity_boost :: pyval
  vs_style :: pyval
  vs_use_speaker_boost :: pyval

text \<open>The keyword arguments of \<open>client.text_to_speech.stream\<close>.\<close>

record tts_kwargs =
  kw_text :: pystr
  kw_voice_id :: pystr
  kw_tts_model_id :: pyval
  kw_output_format :: pystr
  kw_voice_settings :: voice_settings

text \<open>The vendor's transcription result: its \<open>text\<close> attribute, a string or \<open>None\<close>.\<close>

record stt_result =
  result_text :: "pystr option"

text \<open>
  The vendor's audio stream, consumed to its end: the items it delivers, then either the
  end of the stream or an exception raised by the iterator.
\<close>

record audio_stream =
  stream_items :: "pyval list"
  stream_fault :: "pyexc option"

text \<open>
  What the plugin does to the outside, in the order it happens: a call of the constructor
  \<open>ElevenLabs(api_key=...)\<close> with its outcome, a call of the host's \<open>log\<close>, and the
  two vendor calls with the client they are made on.
\<close>

datatype event =
    Construct pyval "pyexc + client"
  | Log pystr pystr
  | Convert client stt_kwargs
  | Stream client tts_kwargs

text \<open>
  The vendor library. Each operation sees the events so far, so the library may answer
  differently from one call to the next. \<open>import_client\<close> is the statement
  \<open>from elevenlabs.client import ElevenLabs\<close>: \<open>None\<close> when it succeeds.
\<close>

record vendor =
  import_client :: "event list \<Rightarrow> pyexc option"
  ElevenLabs :: "event list \<Rightarrow> pyval \<Rightarrow> pyexc + client"
  speech_to_text_convert :: "event list \<Rightarrow> client \<Rightarrow> stt_kwargs \<Rightarrow> pyexc + stt_result"
  text_to_speech_stream :: "event list \<Rightarrow> client \<Rightarrow> tts_kwargs \<Rightarrow> pyexc + audio_stream"

text \<open>\<open>sr.AudioData\<close>: its method \<open>get_wav_data(convert_rate, convert_width)\<close>.\<close>

record audio_data =
  get_wav_data :: "nat \<Rightarrow> nat \<Rightarrow> pyexc + pybytes"

text \<open>A keyword parameter with a default value: \<open>None\<close> when the caller omits it.\<close>

definition kwarg :: "'a \<Rightarrow> 'a option \<Rightarrow> 'a" where
  "kwarg dflt arg = (case arg of None \<Rightarrow> dflt | Some v \<Rightarrow> v)"

text \<open>
  The two exception handlers of \<open>_get_client\<close>, the same in both classes:
  an \<open>ImportError\<close> is replaced by a new one and not logged, any other exception is
  logged and raised again.
\<close>

definition get_client_except :: "pyexc \<Rightarrow> event list \<Rightarrow> pyexc \<times> event list" where
  "get_client_except e w =
     (if is_import_error e
      then (ImportError (py ''elevenlabs is not installed. Install it with: pip install elevenlabs''), w)
      else (e, w @ [Log (py ''error'') (py ''Failed to initialize ElevenLabs client: '' @ exc_str e)]))"

section \<open>ElevenLabsSTTModel\<close>

record stt_model =
  stt_name :: pystr
  stt_api_key :: pyval
  stt_model_id :: pyval
  stt_language_code :: pyval
  stt_client :: "client option"

text \<open>\<open>__init__\<close>; the base class is given the name \<open>elevenlabs-stt\<close>.\<close>

definition ElevenLabsSTTModel :: "pyval \<Rightarrow> pyval option \<Rightarrow> pyval option \<Rightarrow> stt_model" where
  "ElevenLabsSTTModel api_key model_id language_code =
     \<lparr>stt_name = py ''elevenlabs-stt'',
      stt_api_key = api_key,
      stt_model_id = kwarg (PStr (py ''scribe_v1'')) model_id,
      stt_language_code = kwarg PNone language_code,
      stt_client = None\<rparr>"

definition stt_get_client ::
  "vendor \<Rightarrow> stt_model \<times> event list \<Rightarrow> (pyexc + client) \<times> stt_model \<times> event list" where
  "stt_get_client V = (\<lambda>(self, w).
     case stt_client self of
       Some c \<Rightarrow> (Inr c, self, w)
     | None \<Rightarrow>
         (case import_client V w of
            Some e \<Rightarrow> (let (e', w') = get_client_except e w in (Inl e', self, w'))
          | None \<Rightarrow>
              (case ElevenLabs V w (stt_api_key self) of
                 Inl e \<Rightarrow>
                   (let (e', w') =
                      get_client_except e (w @ [Construct (stt_api_key self) (Inl e)])
                    in (Inl e', self, w'))
               | Inr c \<Rightarrow>
                   (Inr c, self\<lparr>stt_client := Some c\<rparr>,
                    w @ [Construct (stt_api_key self) (Inr c)]))))"

text \<open>
  The dictionary \<open>kwargs\<close> that \<open>transcribe\<close> builds: the file and the model id always,
  the language code only when the adapter's one is truthy.
\<close>

definition transcribe_kwargs :: "stt_model \<Rightarrow> pybytes \<Rightarrow> stt_kwargs" where
  "transcribe_kwargs self wav_data =
     (let audio_file = \<lparr>file_content = wav_data, file_name = py ''audio.wav''\<rparr>
      in \<lparr>kw_file = audio_file,
          kw_model_id = stt_model_id self,
          kw_language_code =
            (if truthy (stt_language_code self) then Some (stt_language_code self) else None)\<rparr>)"

text \<open>The body of the \<open>try\<close> block of \<open>transcribe\<close>.\<close>

definition transcribe_try ::
  "vendor \<Rightarrow> audio_data \<Rightarrow> client \<Rightarrow> stt_model \<Rightarrow> event list \<Rightarrow> (pyexc + pystr) \<times> event list" where
  "transcribe_try V audio c self w =
     (case get_wav_data audio 16000 2 of
        Inl e \<Rightarrow> (Inl e, w)
      | Inr wav_data \<Rightarrow>
          (let kwargs = transcribe_kwargs self wav_data
           in case speech_to_text_convert V w c kwargs of
                Inl e \<Rightarrow> (Inl e, w @ [Convert c kwargs])
              | Inr result \<Rightarrow>
                  (Inr (case result_text result of
                          None \<Rightarrow> []
                        | Some t \<Rightarrow> if t \<noteq> [] then strip t else []),
                   w @ [Convert c kwargs])))"

definition transcribe ::
  "vendor \<Rightarrow> audio_data \<Rightarrow> stt_model \<times> event list \<Rightarrow> (pyexc + pystr) \<times> stt_model \<times> event list" where
  "transcribe V audio sw =
     (case stt_get_client V sw of
        (Inl e, self, w) \<Rightarrow> (Inl e, self, w)
      | (Inr c, self, w) \<Rightarrow>
          (case transcribe_try V audio c self w of
             (Inl e, w') \<Rightarrow>
               (Inl e, self,
                w' @ [Log (py ''error'') (py ''ElevenLabs STT transcription failed: '' @ exc_str e)])
           | (Inr r, w') \<Rightarrow> (Inr r, self, w')))"

section \<open>ElevenLabsTTSModel\<close>

record tts_model =
  tts_name :: pystr
  tts_api_key :: pyval
  tts_model_id :: pyval
  tts_stability :: pyval
  tts_similarity_boost :: pyval
  tts_style :: pyval
  tts_use_speaker_boost :: pyval
  tts_client :: "client option"

definition ElevenLabsTTSModel ::
  "pyval \<Rightarrow> pyval option \<Rightarrow> pyval option \<Rightarrow> pyval option \<Rightarrow> pyval option \<Rightarrow> pyval option
     \<Rightarrow> tts_model" where
  "ElevenLabsTTSModel api_key model_id stability similarity_boost style use_speaker_boost =
     \<lparr>tts_name = py ''elevenlabs-tts'',
      tts_api_key = api_key,
      tts_model_id = kwarg (PStr (py ''eleven_flash_v2_5'')) model_id,
      tts_stability = kwarg (PFloat (Finite 0.5)) stability,
      tts_similarity_boost = kwarg (PFloat (Finite 0.75)) similarity_boost,
      tts_style = kwarg (PFloat (Finite 0)) style,
      tts_use_speaker_boost = kwarg (PBool True) use_speaker_boost,
      tts_client = None\<rparr>"

definition tts_get_client ::
  "vendor \<Rightarrow> tts_model \<times> event list \<Rightarrow> (pyexc + client) \<times> tts_model \<times> event list" where
  "tts_get_client V = (\<lambda>(self, w).
     case tts_client self of
       Some c \<Rightarrow> (Inr c, self, w)
     | None \<Rightarrow>
         (case import_client V w of
            Some e \<Rightarrow> (let (e', w') = get_client_except e w in (Inl e', self, w'))
          | None \<Rightarrow>
              (case ElevenLabs V w (tts_api_key self) of
                 Inl e \<Rightarrow>
                   (let (e', w') =
                      get_client_except e (w @ [Construct (tts_api_key self) (Inl e)])
                    in (Inl e', self, w'))
               | Inr c \<Rightarrow>
                   (Inr c, self\<lparr>tts_client := Some c\<rparr>,
                    w @ [Construct (tts_api_key self) (Inr c)]))))"

text \<open>The \<open>for\<close> loop of \<open>synthesize\<close>: the chunks it yields, in order.\<close>

fun synthesize_loop :: "pyval list \<Rightarrow> pyval list" where
  "synthesize_loop [] = []"
| "synthesize_loop (chunk # rest) =
     (if isinstance_bytes chunk \<and> truthy chunk
      then chunk # synthesize_loop rest
      else synthesize_loop rest)"

text \<open>The keyword arguments \<open>synthesize\<close> gives to the vendor's streaming call.\<close>

definition synthesize_kwargs :: "tts_model \<Rightarrow> pystr \<Rightarrow> pystr \<Rightarrow> tts_kwargs" where
  "synthesize_kwargs self text voice =
     \<lparr>kw_text = text,
      kw_voice_id = voice,
      kw_tts_model_id = tts_model_id self,
      kw_output_format = py ''pcm_24000'',
      kw_voice_settings =
        \<lparr>vs_stability = tts_stability self,
         vs_similarity_boost = tts_similarity_boost self,
         vs_style = tts_style self,
         vs_use_speaker_boost = tts_use_speaker_boost self\<rparr>\<rparr>"

text \<open>
  The body of the \<open>try\<close> block of \<open>synthesize\<close>, for a caller that iterates the generator
  to its end: the chunks yielded, and the exception that ends the iteration, if any.
\<close>

definition synthesize_try ::
  "vendor \<Rightarrow> pystr \<Rightarrow> pystr \<Rightarrow> client \<Rightarrow> tts_model \<Rightarrow> event list
     \<Rightarrow> (pyval list \<times> pyexc option) \<times> event list" where
  "synthesize_try V text voice c self w =
     (let kwargs = synthesize_kwargs self text voice
      in case text_to_speech_stream V w c kwargs of
           Inl e \<Rightarrow> (([], Some e), w @ [Stream c kwargs])
         | Inr audio_stream \<Rightarrow>
             ((synthesize_loop (stream_items audio_stream), stream_fault audio_stream),
              w @ [Stream c kwargs]))"

definition synthesize ::
  "vendor \<Rightarrow> pystr \<Rightarrow> pystr \<Rightarrow> tts_model \<times> event list
     \<Rightarrow> (pyval list \<times> pyexc option) \<times> tts_model \<times> event list" where
  "synthesize V text voice sw =
     (case tts_get_client V sw of
        (Inl e, self, w) \<Rightarrow> (([], Some e), self, w)
      | (Inr c, self, w) \<Rightarrow>
          (case synthesize_try V text voice c self w of
             ((chunks, Some e), w') \<Rightarrow>
               ((chunks, Some e), self,
                w' @ [Log (py ''error'') (py ''ElevenLabs TTS synthesis failed: '' @ exc_str e)])
           | ((chunks, None), w') \<Rightarrow> ((chunks, None), self, w')))"

section \<open>ElevenLabsPlugin.create_model\<close>

datatype model = STT stt_model | TTS tts_model

definition create_model ::
  "(pyval \<Rightarrow> pyexc + pyfloat) \<Rightarrow> pystr \<Rightarrow> settings \<Rightarrow> event list \<Rightarrow> (pyexc + model) \<times> event list" where
  "create_model conv provider_id settings w =
     (if provider_id = py ''elevenlabs-stt'' then
        (let api_key = dict_get settings (py ''elevenlabs_api_key'') (PStr (py '''')) in
         if \<not> truthy api_key
         then (Inl (ValueError (py ''ElevenLabs STT: No API key provided'')), w)
         else
           (let model_id = dict_get settings (py ''elevenlabs_stt_model_id'') (PStr (py ''scribe_v1''));
                language_code =
                  py_or (dict_get settings (py ''elevenlabs_stt_language'') (PStr (py ''''))) PNone
            in (Inr (STT (ElevenLabsSTTModel api_key (Some model_id) (Some language_code))), w)))
      else if provider_id = py ''elevenlabs-tts'' then
        (let api_key = dict_get settings (py ''elevenlabs_api_key'') (PStr (py '''')) in
         if \<not> truthy api_key
         then (Inl (ValueError (py ''ElevenLabs TTS: No API key provided'')), w)
         else
           (let model_id =
                  dict_get settings (py ''elevenlabs_model_id'') (PStr (py ''eleven_flash_v2_5''))
            in case py_float conv (dict_get settings (py ''elevenlabs_stability'') (PFloat (Finite 0.5))) of
                 Inl e \<Rightarrow> (Inl e, w)
               | Inr stability \<Rightarrow>
              (case py_float conv
                      (dict_get settings (py ''elevenlabs_similarity_boost'') (PFloat (Finite 0.75))) of
                 Inl e \<Rightarrow> (Inl e, w)
               | Inr similarity_boost \<Rightarrow>
              (case py_float conv (dict_get settings (py ''elevenlabs_style'') (PFloat (Finite 0))) of
                 Inl e \<Rightarrow> (Inl e, w)
               | Inr style \<Rightarrow>
                   (Inr (TTS (ElevenLabsTTSModel api_key (Some model_id)
                                (Some (PFloat stability)) (Some (PFloat similarity_boost))
                                (Some (PFloat style)) None)), w)))))
      else (Inl (ValueError (py ''Unknown ElevenLabs provider: '' @ provider_id)), w))"

section \<open>Sequences of calls on one adapter\<close>

text \<open>
  The host keeps an adapter and calls it again and again. A call of \<open>synthesize\<close> here
  is the call together with the iteration of the generator it returns.
\<close>

fun stt_calls :: "vendor \<Rightarrow> audio_data list \<Rightarrow> stt_model \<times> event list \<Rightarrow> stt_model \<times> event list" where
  "stt_calls V [] sw = sw"
| "stt_calls V (audio # rest) sw = stt_calls V rest (snd (transcribe V audio sw))"

fun tts_calls ::
  "vendor \<Rightarrow> (pystr \<times> pystr) list \<Rightarrow> tts_model \<times> event list \<Rightarrow> tts_model \<times> event list" where
  "tts_calls V [] sw = sw"
| "tts_calls V ((text, voice) # rest) sw = tts_calls V rest (snd (synthesize V text voice sw))"

text \<open>Reading a trace of events.\<close>

fun constructed :: "event \<Rightarrow> bool" where
  "constructed (Construct k (Inr c)) = True"
| "constructed ev = False"

definition constructions :: "event list \<Rightarrow> nat" where
  "constructions evs = length (filter constructed evs)"

text \<open>
  \<open>on_client co ev\<close>: if \<open>ev\<close> is a vendor call, it is made on the client \<open>co\<close>
  (so no vendor call is \<open>on_client None\<close>).
\<close>

fun on_client :: "client option \<Rightarrow> event \<Rightarrow> bool" where
  "on_client co (Convert c kw) = (co = Some c)"
| "on_client co (Stream c kw) = (co = Some c)"
| "on_client co ev = True"

fun constructs_from :: "pyval \<Rightarrow> event \<Rightarrow> bool" where
  "constructs_from k (Construct k' r) = (k' = k)"
| "constructs_from k ev = True"

fun is_construct :: "event \<Rightarrow> bool" where
  "is_construct (Construct k r) = True"
| "is_construct ev = False"

fun sends_boost :: "pyval \<Rightarrow> event \<Rightarrow> bool" where
  "sends_boost b (Stream c kw) = (vs_use_speaker_boost (kw_voice_settings kw) = b)"
| "sends_boost b ev = True"

text \<open>
  The discipline of the lazily created client over a stretch of events \<open>evs\<close>, for an
  adapter whose credential is \<open>k\<close> and whose cached client is \<open>before\<close> at the start
  and \<open>after\<close> at the end.
\<close>

definition lazy_client :: "pyval \<Rightarrow> client option \<Rightarrow> client option \<Rightarrow> event list \<Rightarrow> bool" where
  "lazy_client k before after evs \<longleftrightarrow>
     list_all (constructs_from k) evs \<and>
     list_all (on_client after) evs \<and>
     (before \<noteq> None \<longrightarrow> after = before \<and> filter is_construct evs = []) \<and>
     constructions evs = (if before = None \<and> after \<noteq> None then 1 else 0)"

section \<open>Test doubles\<close>

text \<open>
  A vendor library that loads, builds the client 1, answers every transcription with
  \<open>r\<close> and every synthesis with the stream \<open>s\<close>.
\<close>

definition mock_vendor :: "stt_result \<Rightarrow> audio_stream \<Rightarrow> vendor" where
  "mock_vendor r s =
     \<lparr>import_client = (\<lambda>w. None),
      ElevenLabs = (\<lambda>w k. Inr 1),
      speech_to_text_convert = (\<lambda>w c kw. Inr r),
      text_to_speech_stream = (\<lambda>w c kw. Inr s)\<rparr>"

text \<open>A vendor library whose two calls raise \<open>e\<close>.\<close>

definition failing_vendor :: "pyexc \<Rightarrow> vendor" where
  "failing_vendor e =
     \<lparr>import_client = (\<lambda>w. None),
      ElevenLabs = (\<lambda>w k. Inr 1),
      speech_to_text_convert = (\<lambda>w c kw. Inl e),
      text_to_speech_stream = (\<lambda>w c kw. Inl e)\<rparr>"

text \<open>
  A vendor library whose constructor fails on its first call and gives the client 7
  from then on.
\<close>

definition flaky_vendor :: "pyexc \<Rightarrow> stt_result \<Rightarrow> audio_stream \<Rightarrow> vendor" where
  "flaky_vendor e r s =
     \<lparr>import_client = (\<lambda>w. None),
      ElevenLabs = (\<lambda>w k. if filter is_construct w = [] then Inl e else Inr 7),
      speech_to_text_convert = (\<lambda>w c kw. Inr r),
      text_to_speech_stream = (\<lambda>w c kw. Inr s)\<rparr>"

definition mock_audio :: audio_data where
  "mock_audio = \<lparr>get_wav_data = (\<lambda>rate width. Inr ''RIFF'')\<rparr>"

text \<open>
  A stand-in for \<open>float\<close> on the arguments that are not floats. It is the builtin on
  \<open>None\<close>, on the booleans and on the integers a float holds exactly, and refuses
  everything else.
\<close>

definition mock_float :: "pyval \<Rightarrow> pyexc + pyfloat" where
  "mock_float v =
     (case v of
        PNone \<Rightarrow>
          Inl (PyExc (py ''TypeError'') False
                 (py (''float() argument must be a string or a real number, not '' @
                      [CHR 0x27] @ ''NoneType'' @ [CHR 0x27])))
      | PBool b \<Rightarrow> Inr (Finite (if b then 1 else 0))
      | PInt i \<Rightarrow> Inr (Finite (of_int i))
      | _ \<Rightarrow> Inl (ValueError (py ''could not convert string to float'')))"

section \<open>Source literals\<close>

lemma py_eq_iff [simp]: "py a = py b \<longleftrightarrow> a = b"
  by (simp add: py_def inj_on_def)

lemma py_append: "py a @ py b = py (a @ b)"
  by (simp add: py_def)

lemma py_Nil [simp]: "py '''' = []"
  by (simp add: py_def)

section \<open>Construction of the adapters\<close>

text \<open>
  Claim C1. When the settings hold no \<open>elevenlabs_api_key\<close>, or hold the empty string
  under it, \<open>create_model\<close> fails for both provider ids with an error whose message names
  the provider. It returns no adapter, and the trace of events is the one it was given:
  no client is constructed and no vendor call is made.
\<close>

theorem create_model_missing_api_key:
  assumes "map_of settings (py ''elevenlabs_api_key'') = None \<or>
           map_of settings (py ''elevenlabs_api_key'') = Some (PStr [])"
  shows "create_model conv (py ''elevenlabs-stt'') settings w =
           (Inl (ValueError (py ''ElevenLabs STT: No API key provided'')), w) \<and>
         create_model conv (py ''elevenlabs-tts'') settings w =
           (Inl (ValueError (py ''ElevenLabs TTS: No API key provided'')), w)"
  using assms by (auto simp add: create_model_def dict_get_def)

theorem create_model_missing_api_key_witness:
  "create_model mock_float (py ''elevenlabs-stt'')
     [(py ''elevenlabs_stt_model_id'', PStr (py ''scribe_v1''))] [] =
     (Inl (ValueError (py ''ElevenLabs STT: No API key provided'')), []) \<and>
   create_model mock_float (py ''elevenlabs-tts'')
     [(py ''elevenlabs_api_key'', PStr (py '''')), (py ''elevenlabs_style'', PInt 1)] [] =
     (Inl (ValueError (py ''ElevenLabs TTS: No API key provided'')), [])"
  using create_model_missing_api_key
          [of "[(py ''elevenlabs_stt_model_id'', PStr (py ''scribe_v1''))]" mock_float "[]"]
        create_model_missing_api_key
          [of "[(py ''elevenlabs_api_key'', PStr (py '''')), (py ''elevenlabs_style'', PInt 1)]"
              mock_float "[]"]
  by simp

text \<open>
  Claim C7. For a provider id that is neither \<open>elevenlabs-stt\<close> nor
  \<open>elevenlabs-tts\<close>, whatever the settings, \<open>create_model\<close> fails with an error whose
  message ends with that id, and returns no adapter.
\<close>

theorem create_model_unknown_provider:
  assumes "provider_id \<noteq> py ''elevenlabs-stt''" and "provider_id \<noteq> py ''elevenlabs-tts''"
  shows "create_model conv provider_id settings w =
           (Inl (ValueError (py ''Unknown ElevenLabs provider: '' @ provider_id)), w)"
  using assms by (simp add: create_model_def)

theorem create_model_unknown_provider_witness:
  "create_model mock_float (py ''openai-tts'')
     [(py ''elevenlabs_api_key'', PStr (py ''sk-1''))] [] =
     (Inl (ValueError (py ''Unknown ElevenLabs provider: openai-tts'')), [])"
  using create_model_unknown_provider
          [of "py ''openai-tts''" mock_float "[(py ''elevenlabs_api_key'', PStr (py ''sk-1''))]" "[]"]
  by (simp add: py_append)

section \<open>Transcription\<close>

text \<open>
  \<open>_get_client\<close> changes nothing but the cached client, so the arguments built from
  the adapter are the same before and after it.
\<close>

lemma stt_get_client_kwargs:
  assumes "stt_get_client V (a, w) = (r, a', w')"
  shows "transcribe_kwargs a' wav = transcribe_kwargs a wav"
  using assms
  by (auto simp add: stt_get_client_def transcribe_kwargs_def get_client_except_def Let_def
           split: option.splits sum.splits if_splits prod.splits)

text \<open>
  What \<open>transcribe\<close> does once the client is there and the audio is rendered: one
  vendor call, then either the result or the log entry and the same exception.
\<close>

lemma transcribe_ready:
  assumes "stt_get_client V (a, w) = (Inr c, a', w')"
      and "get_wav_data audio 16000 2 = Inr wav"
  shows "transcribe V audio (a, w) =
           (case speech_to_text_convert V w' c (transcribe_kwargs a wav) of
              Inl e \<Rightarrow>
                (Inl e, a',
                 w' @ [Convert c (transcribe_kwargs a wav),
                       Log (py ''error'') (py ''ElevenLabs STT transcription failed: '' @ exc_str e)])
            | Inr r \<Rightarrow>
                (Inr (case result_text r of None \<Rightarrow> [] | Some t \<Rightarrow> strip t), a',
                 w' @ [Convert c (transcribe_kwargs a wav)]))"
proof -
  have kw: "transcribe_kwargs a' wav = transcribe_kwargs a wav"
    using assms(1) by (rule stt_get_client_kwargs)
  have "strip [] = []" by (simp add: strip_def)
  then show ?thesis
    using assms kw
    by (simp add: transcribe_def transcribe_try_def Let_def split: sum.splits option.splits)
qed

subsection \<open>White space\<close>

lemma rev_dropWhile_takeWhile:
  "rev (dropWhile P (rev xs)) @ rev (takeWhile P (rev xs)) = xs"
proof -
  have "rev (dropWhile P (rev xs)) @ rev (takeWhile P (rev xs)) =
        rev (takeWhile P (rev xs) @ dropWhile P (rev xs))"
    by (simp only: rev_append)
  then show ?thesis by simp
qed

lemma strip_decomp:
  "\<exists>pre post. t = pre @ strip t @ post \<and> list_all isspace pre \<and> list_all isspace post"
proof -
  define d where "d = dropWhile isspace t"
  have t: "t = takeWhile isspace t @ d"
    by (simp add: d_def)
  have d: "d = strip t @ rev (takeWhile isspace (rev d))"
    using rev_dropWhile_takeWhile [of isspace d] by (simp add: strip_def d_def)
  have pre: "list_all isspace (takeWhile isspace t)"
    by (simp add: list_all_iff) (meson set_takeWhileD)
  have post: "list_all isspace (rev (takeWhile isspace (rev d)))"
    by (simp add: list_all_iff) (meson set_takeWhileD)
  from t d have "t = takeWhile isspace t @ strip t @ rev (takeWhile isspace (rev d))"
    by simp
  with pre post show ?thesis by blast
qed

lemma strip_ends:
  assumes "strip t \<noteq> []"
  shows "\<not> isspace (hd (strip t)) \<and> \<not> isspace (last (strip t))"
proof -
  define d where "d = dropWhile isspace t"
  define r where "r = dropWhile isspace (rev d)"
  have s: "strip t = rev r" by (simp add: strip_def d_def r_def)
  with assms have r: "r \<noteq> []" by simp
  have "\<not> isspace (hd r)" using r unfolding r_def by (rule hd_dropWhile)
  then have last: "\<not> isspace (last (strip t))" using r s by (simp add: last_rev)
  have dd: "d = rev r @ rev (takeWhile isspace (rev d))"
    using rev_dropWhile_takeWhile [of isspace d] by (simp add: r_def)
  from r have dn: "d \<noteq> []" using dd by auto
  have "\<not> isspace (hd d)" using dn unfolding d_def by (rule hd_dropWhile)
  moreover have "hd d = hd (rev r)" using dd r by (metis hd_append2 rev_is_Nil_conv)
  ultimately show ?thesis using last s by simp
qed

lemma strip_example: "strip (py ''  hello world  '') = py ''hello world''"
  by (simp add: strip_def py_def isspace_def)

text \<open>
  Claim C4. When the vendor's transcription call returns a result, \<open>transcribe\<close>
  returns a string and raises nothing. If the result has no text (\<open>None\<close>), the
  string is empty. Otherwise it is the text with its leading and trailing white space
  removed: the text is white space, then the returned string, then white space, and the
  returned string neither starts nor ends with white space; for the empty text it is the
  empty string.
\<close>

theorem transcribe_returns_stripped_text:
  assumes "stt_get_client V (a, w) = (Inr c, a', w')"
      and "get_wav_data audio 16000 2 = Inr wav"
      and "speech_to_text_convert V w' c (transcribe_kwargs a wav) = Inr r"
  shows "\<exists>out. fst (transcribe V audio (a, w)) = Inr out \<and>
           (case result_text r of
              None \<Rightarrow> out = []
            | Some t \<Rightarrow>
                out = strip t \<and>
                (\<exists>pre post. t = pre @ out @ post \<and> list_all isspace pre \<and> list_all isspace post) \<and>
                (out = [] \<or> (\<not> isspace (hd out) \<and> \<not> isspace (last out))))"
proof (cases "result_text r")
  case None
  then show ?thesis
    using assms by (simp add: transcribe_ready)
next
  case (Some t)
  have "fst (transcribe V audio (a, w)) = Inr (strip t)"
    using assms Some by (simp add: transcribe_ready)
  then show ?thesis
    using Some strip_decomp [of t] strip_ends [of t] by auto
qed

theorem transcribe_returns_stripped_text_witness:
  "fst (transcribe (mock_vendor \<lparr>result_text = Some (py ''  hello world  '')\<rparr>
                      \<lparr>stream_items = [], stream_fault = None\<rparr>)
          mock_audio (ElevenLabsSTTModel (PStr (py ''sk-1'')) None None, [])) =
     Inr (py ''hello world'') \<and>
   fst (transcribe (mock_vendor \<lparr>result_text = None\<rparr>
                      \<lparr>stream_items = [], stream_fault = None\<rparr>)
          mock_audio (ElevenLabsSTTModel (PStr (py ''sk-1'')) None None, [])) =
     Inr []"
  using transcribe_returns_stripped_text
    [of "mock_vendor \<lparr>result_text = Some (py ''  hello world  '')\<rparr>
           \<lparr>stream_items = [], stream_fault = None\<rparr>"
        "ElevenLabsSTTModel (PStr (py ''sk-1'')) None None" "[]" 1
        "(ElevenLabsSTTModel (PStr (py ''sk-1'')) None None)\<lparr>stt_client := Some 1\<rparr>"
        "[Construct (PStr (py ''sk-1'')) (Inr 1)]"
        mock_audio "''RIFF''" "\<lparr>result_text = Some (py ''  hello world  '')\<rparr>"]
    transcribe_returns_stripped_text
    [of "mock_vendor \<lparr>result_text = None\<rparr>
           \<lparr>stream_items = [], stream_fault = None\<rparr>"
        "ElevenLabsSTTModel (PStr (py ''sk-1'')) None None" "[]" 1
        "(ElevenLabsSTTModel (PStr (py ''sk-1'')) None None)\<lparr>stt_client := Some 1\<rparr>"
        "[Construct (PStr (py ''sk-1'')) (Inr 1)]"
        mock_audio "''RIFF''" "\<lparr>result_text = None\<rparr>"]
  by (simp add: stt_get_client_def mock_vendor_def mock_audio_def ElevenLabsSTTModel_def
        strip_example)

section \<open>The cached client over one call and over many\<close>

lemma on_client_None:
  "list_all (on_client None) evs \<Longrightarrow> list_all (on_client co) evs"
proof (induction evs)
  case Nil
  then show ?case by simp
next
  case (Cons ev evs)
  then show ?case by (cases ev) simp_all
qed

lemma constructions_append [simp]:
  "constructions (xs @ ys) = constructions xs + constructions ys"
  by (simp add: constructions_def)

lemma lazy_client_Nil [simp]: "lazy_client k co co []"
  by (cases co) (simp_all add: lazy_client_def constructions_def)

lemma lazy_client_append:
  assumes "lazy_client k c0 c1 xs" and "lazy_client k c1 c2 ys"
  shows "lazy_client k c0 c2 (xs @ ys)"
proof (cases c1)
  case None
  with assms(1) have "c0 = None" and "constructions xs = 0" and "list_all (on_client None) xs"
    by (auto simp add: lazy_client_def)
  then show ?thesis
    using assms None on_client_None [of xs c2]
    by (auto simp add: lazy_client_def)
next
  case (Some c)
  with assms(2) have "c2 = Some c" and "constructions ys = 0"
    by (auto simp add: lazy_client_def constructions_def)
  then show ?thesis
    using assms Some by (auto simp add: lazy_client_def)
qed

lemma lazy_client_at_most_once:
  "lazy_client k before after evs \<Longrightarrow> constructions evs \<le> 1"
  by (simp add: lazy_client_def)

lemma transcribe_step:
  assumes "transcribe V audio (a, w) = (out, a', w')"
  shows "\<exists>evs. w' = w @ evs \<and> a' = a\<lparr>stt_client := stt_client a'\<rparr> \<and>
           lazy_client (stt_api_key a) (stt_client a) (stt_client a') evs"
  using assms
  by (auto simp add: transcribe_def stt_get_client_def transcribe_try_def get_client_except_def
        lazy_client_def constructions_def Let_def
        split: option.splits sum.splits if_splits prod.splits)

lemma synthesize_step:
  assumes "synthesize V text voice (a, w) = (out, a', w')"
  shows "\<exists>evs. w' = w @ evs \<and> a' = a\<lparr>tts_client := tts_client a'\<rparr> \<and>
           lazy_client (tts_api_key a) (tts_client a) (tts_client a') evs \<and>
           list_all (sends_boost (tts_use_speaker_boost a)) evs"
  using assms
  by (auto simp add: synthesize_def tts_get_client_def synthesize_try_def get_client_except_def
        synthesize_kwargs_def lazy_client_def constructions_def Let_def
        split: option.splits sum.splits if_splits prod.splits)

lemma stt_calls_run:
  "stt_calls V audios (a, w) = (a', w') \<Longrightarrow>
     \<exists>evs. w' = w @ evs \<and> a' = a\<lparr>stt_client := stt_client a'\<rparr> \<and>
       lazy_client (stt_api_key a) (stt_client a) (stt_client a') evs"
proof (induction audios arbitrary: a w)
  case Nil
  then show ?case by simp
next
  case (Cons audio rest)
  obtain out a1 w1 where t: "transcribe V audio (a, w) = (out, a1, w1)"
    by (metis prod_cases3)
  from transcribe_step [OF t] obtain evs1 where
    1: "w1 = w @ evs1" "a1 = a\<lparr>stt_client := stt_client a1\<rparr>"
       "lazy_client (stt_api_key a) (stt_client a) (stt_client a1) evs1"
    by blast
  from Cons.prems t have "stt_calls V rest (a1, w1) = (a', w')"
    by simp
  from Cons.IH [OF this] obtain evs2 where
    2: "w' = w1 @ evs2" "a' = a1\<lparr>stt_client := stt_client a'\<rparr>"
       "lazy_client (stt_api_key a1) (stt_client a1) (stt_client a') evs2"
    by blast
  define c1 where "c1 = stt_client a1"
  define c2 where "c2 = stt_client a'"
  have a1: "a1 = a\<lparr>stt_client := c1\<rparr>"
    using 1(2) by (simp add: c1_def)
  have a': "a' = a1\<lparr>stt_client := c2\<rparr>"
    using 2(2) by (simp add: c2_def)
  have k: "stt_api_key a1 = stt_api_key a"
    by (simp add: a1)
  have "lazy_client (stt_api_key a) (stt_client a) (stt_client a') (evs1 @ evs2)"
    using 1(3) 2(3) k by (simp add: lazy_client_append)
  moreover have "w' = w @ evs1 @ evs2"
    using 1(1) 2(1) by simp
  moreover have "a' = a\<lparr>stt_client := c2\<rparr>"
    by (simp add: a' a1)
  then have "a' = a\<lparr>stt_client := stt_client a'\<rparr>"
    by (simp add: c2_def)
  ultimately show ?case by blast
qed

lemma tts_calls_run:
  "tts_calls V calls (a, w) = (a', w') \<Longrightarrow>
     \<exists>evs. w' = w @ evs \<and> a' = a\<lparr>tts_client := tts_client a'\<rparr> \<and>
       lazy_client (tts_api_key a) (tts_client a) (tts_client a') evs \<and>
       list_all (sends_boost (tts_use_speaker_boost a)) evs"
proof (induction calls arbitrary: a w)
  case Nil
  then show ?case by simp
next
  case (Cons tv rest)
  obtain utter voice where tv: "tv = (utter, voice)"
    by (cases tv)
  obtain out a1 w1 where t: "synthesize V utter voice (a, w) = (out, a1, w1)"
    by (metis prod_cases3)
  from synthesize_step [OF t] obtain evs1 where
    1: "w1 = w @ evs1" "a1 = a\<lparr>tts_client := tts_client a1\<rparr>"
       "lazy_client (tts_api_key a) (tts_client a) (tts_client a1) evs1"
       "list_all (sends_boost (tts_use_speaker_boost a)) evs1"
    by blast
  from Cons.prems t tv have "tts_calls V rest (a1, w1) = (a', w')"
    by simp
  from Cons.IH [OF this] obtain evs2 where
    2: "w' = w1 @ evs2" "a' = a1\<lparr>tts_client := tts_client a'\<rparr>"
       "lazy_client (tts_api_key a1) (tts_client a1) (tts_client a') evs2"
       "list_all (sends_boost (tts_use_speaker_boost a1)) evs2"
    by blast
  define c1 where "c1 = tts_client a1"
  define c2 where "c2 = tts_client a'"
  have a1: "a1 = a\<lparr>tts_client := c1\<rparr>"
    using 1(2) by (simp add: c1_def)
  have a': "a' = a1\<lparr>tts_client := c2\<rparr>"
    using 2(2) by (simp add: c2_def)
  have k: "tts_api_key a1 = tts_api_key a" "tts_use_speaker_boost a1 = tts_use_speaker_boost a"
    by (simp_all add: a1)
  have "lazy_client (tts_api_key a) (tts_client a) (tts_client a') (evs1 @ evs2)"
    using 1(3) 2(3) k by (simp add: lazy_client_append)
  moreover have "w' = w @ evs1 @ evs2"
    using 1(1) 2(1) by simp
  moreover have "a' = a\<lparr>tts_client := c2\<rparr>"
    by (simp add: a' a1)
  then have "a' = a\<lparr>tts_client := tts_client a'\<rparr>"
    by (simp add: c2_def)
  moreover have "list_all (sends_boost (tts_use_speaker_boost a)) (evs1 @ evs2)"
    using 1(4) 2(4) k by simp
  ultimately show ?case by blast
qed

section \<open>Synthesis\<close>

lemma tts_get_client_kwargs:
  assumes "tts_get_client V (a, w) = (r, a', w')"
  shows "synthesize_kwargs a' phrase voice = synthesize_kwargs a phrase voice"
  using assms
  by (auto simp add: tts_get_client_def synthesize_kwargs_def get_client_except_def Let_def
           split: option.splits sum.splits if_splits prod.splits)

text \<open>
  What \<open>synthesize\<close> does once the client is there: one streaming call, the chunks of
  the loop, and a log entry when the call or the stream raises.
\<close>

lemma synthesize_ready:
  assumes "tts_get_client V (a, w) = (Inr c, a', w')"
  shows "synthesize V phrase voice (a, w) =
           (case text_to_speech_stream V w' c (synthesize_kwargs a phrase voice) of
              Inl e \<Rightarrow>
                (([], Some e), a',
                 w' @ [Stream c (synthesize_kwargs a phrase voice),
                       Log (py ''error'') (py ''ElevenLabs TTS synthesis failed: '' @ exc_str e)])
            | Inr s \<Rightarrow>
                ((synthesize_loop (stream_items s), stream_fault s), a',
                 w' @ Stream c (synthesize_kwargs a phrase voice) #
                   (case stream_fault s of
                      None \<Rightarrow> []
                    | Some e \<Rightarrow>
                        [Log (py ''error'') (py ''ElevenLabs TTS synthesis failed: '' @ exc_str e)])))"
proof -
  have kw: "synthesize_kwargs a' phrase voice = synthesize_kwargs a phrase voice"
    using assms(1) by (rule tts_get_client_kwargs)
  show ?thesis
    using assms kw
    by (simp add: synthesize_def synthesize_try_def Let_def split: sum.splits option.splits)
qed

lemma nonempty_bytes_iff:
  "isinstance_bytes v \<and> truthy v \<longleftrightarrow> (\<exists>b. v = PBytes b \<and> b \<noteq> [])"
  by (cases v) simp_all

lemma synthesize_loop_filter:
  "synthesize_loop items = filter (\<lambda>chunk. \<exists>b. chunk = PBytes b \<and> b \<noteq> []) items"
proof (induction items)
  case Nil
  then show ?case by simp
next
  case (Cons chunk rest)
  then show ?case
    using nonempty_bytes_iff [of chunk] by simp
qed

lemma synthesize_chunks:
  "\<exists>items. fst (fst (synthesize V phrase voice (a, w))) = synthesize_loop items"
proof -
  have e: "[] = synthesize_loop []" by simp
  show ?thesis
    by (auto simp add: synthesize_def synthesize_try_def Let_def
          split: option.splits sum.splits prod.splits intro: e)
qed

text \<open>
  Claim C3. When the vendor's streaming call delivers a sequence of items,
  \<open>synthesize\<close> yields exactly the items of that sequence that are non-empty byte
  strings, in the order of delivery; empty chunks are left out. For the stream
  \<open>[b"abc", b"", b"def"]\<close> it yields \<open>[b"abc", b"def"]\<close>.
\<close>

theorem synthesize_yields_nonempty_chunks_in_order:
  assumes "tts_get_client V (a, w) = (Inr c, a', w')"
      and "text_to_speech_stream V w' c (synthesize_kwargs a phrase voice) = Inr s"
  shows "fst (fst (synthesize V phrase voice (a, w))) =
           filter (\<lambda>chunk. \<exists>b. chunk = PBytes b \<and> b \<noteq> []) (stream_items s)"
  using assms by (simp add: synthesize_ready synthesize_loop_filter)

theorem synthesize_yields_nonempty_chunks_in_order_witness:
  "fst (fst (synthesize
      (mock_vendor \<lparr>result_text = None\<rparr>
         \<lparr>stream_items = [PBytes ''abc'', PBytes '''', PBytes ''def''], stream_fault = None\<rparr>)
      (py ''hello'') (py ''JBFqnCBsd6RMkjVDRZzb'')
      (ElevenLabsTTSModel (PStr (py ''sk-1'')) None None None None None, []))) =
   [PBytes ''abc'', PBytes ''def'']"
  using synthesize_yields_nonempty_chunks_in_order
    [of "mock_vendor \<lparr>result_text = None\<rparr>
           \<lparr>stream_items = [PBytes ''abc'', PBytes '''', PBytes ''def''], stream_fault = None\<rparr>"
        "ElevenLabsTTSModel (PStr (py ''sk-1'')) None None None None None" "[]" 1
        "(ElevenLabsTTSModel (PStr (py ''sk-1'')) None None None None None)\<lparr>tts_client := Some 1\<rparr>"
        "[Construct (PStr (py ''sk-1'')) (Inr 1)]"
        "py ''hello''" "py ''JBFqnCBsd6RMkjVDRZzb''"
        "\<lparr>stream_items = [PBytes ''abc'', PBytes '''', PBytes ''def''], stream_fault = None\<rparr>"]
  by (simp add: tts_get_client_def mock_vendor_def ElevenLabsTTSModel_def)

text \<open>
  Claim C10. Every value \<open>synthesize\<close> yields is a non-empty byte string, whatever
  the vendor does. An item of the vendor's stream that is not a \<open>bytes\<close> instance is
  never yielded, and it is no error: the iteration ends with an exception only when the
  stream itself raises one.
\<close>

theorem synthesize_yields_only_bytes:
  "list_all (\<lambda>chunk. \<exists>b. chunk = PBytes b \<and> b \<noteq> [])
     (fst (fst (synthesize V phrase voice (a, w)))) \<and>
   (tts_get_client V (a, w) = (Inr c, a', w') \<and>
    text_to_speech_stream V w' c (synthesize_kwargs a phrase voice) = Inr s \<longrightarrow>
      snd (fst (synthesize V phrase voice (a, w))) = stream_fault s \<and>
      (\<forall>item \<in> set (stream_items s).
         \<not> isinstance_bytes item \<longrightarrow> item \<notin> set (fst (fst (synthesize V phrase voice (a, w))))))"
proof (intro conjI impI)
  obtain items where "fst (fst (synthesize V phrase voice (a, w))) = synthesize_loop items"
    using synthesize_chunks by blast
  then show "list_all (\<lambda>chunk. \<exists>b. chunk = PBytes b \<and> b \<noteq> [])
     (fst (fst (synthesize V phrase voice (a, w))))"
    by (simp add: synthesize_loop_filter list_all_iff)
next
  assume h: "tts_get_client V (a, w) = (Inr c, a', w') \<and>
    text_to_speech_stream V w' c (synthesize_kwargs a phrase voice) = Inr s"
  then show "snd (fst (synthesize V phrase voice (a, w))) = stream_fault s"
    by (simp add: synthesize_ready)
  from h have "fst (fst (synthesize V phrase voice (a, w))) = synthesize_loop (stream_items s)"
    by (simp add: synthesize_ready)
  then show "\<forall>item \<in> set (stream_items s).
         \<not> isinstance_bytes item \<longrightarrow> item \<notin> set (fst (fst (synthesize V phrase voice (a, w))))"
    by (auto simp add: synthesize_loop_filter)
qed

theorem synthesize_yields_only_bytes_witness:
  "fst (synthesize
      (mock_vendor \<lparr>result_text = None\<rparr>
         \<lparr>stream_items = [PNone, PBytes ''abc'', PStr (py ''def''), PBytes '''', PInt 7],
          stream_fault = None\<rparr>)
      (py ''hello'') (py ''JBFqnCBsd6RMkjVDRZzb'')
      (ElevenLabsTTSModel (PStr (py ''sk-1'')) None None None None None, [])) =
   ([PBytes ''abc''], None)"
  using synthesize_yields_only_bytes
    [of "mock_vendor \<lparr>result_text = None\<rparr>
           \<lparr>stream_items = [PNone, PBytes ''abc'', PStr (py ''def''), PBytes '''', PInt 7],
            stream_fault = None\<rparr>"
        "py ''hello''" "py ''JBFqnCBsd6RMkjVDRZzb''"
        "ElevenLabsTTSModel (PStr (py ''sk-1'')) None None None None None" "[]" 1
        "(ElevenLabsTTSModel (PStr (py ''sk-1'')) None None None None None)\<lparr>tts_client := Some 1\<rparr>"
        "[Construct (PStr (py ''sk-1'')) (Inr 1)]"
        "\<lparr>stream_items = [PNone, PBytes ''abc'', PStr (py ''def''), PBytes '''', PInt 7],
          stream_fault = None\<rparr>"]
  by (simp add: synthesize_def synthesize_try_def tts_get_client_def mock_vendor_def
        ElevenLabsTTSModel_def)

section \<open>Failures of the vendor calls\<close>

text \<open>
  A call returns normally only when every step it went through succeeded.
\<close>

lemma transcribe_returns_only_on_success:
  assumes "fst (transcribe V audio (sa, sw)) = Inr out"
  shows "\<exists>c sa1 sw1 wav r.
           stt_get_client V (sa, sw) = (Inr c, sa1, sw1) \<and>
           get_wav_data audio 16000 2 = Inr wav \<and>
           speech_to_text_convert V sw1 c (transcribe_kwargs sa wav) = Inr r"
proof -
  obtain g sa1 sw1 where g: "stt_get_client V (sa, sw) = (g, sa1, sw1)"
    by (metis prod_cases3)
  with assms obtain c where c: "g = Inr c"
    by (cases g) (simp_all add: transcribe_def)
  from assms g c obtain wav where wav: "get_wav_data audio 16000 2 = Inr wav"
    by (cases "get_wav_data audio 16000 2") (simp_all add: transcribe_def transcribe_try_def)
  from assms g c wav obtain r where
    "speech_to_text_convert V sw1 c (transcribe_kwargs sa wav) = Inr r"
    by (cases "speech_to_text_convert V sw1 c (transcribe_kwargs sa wav)")
       (simp_all add: transcribe_ready)
  with g c wav show ?thesis by blast
qed

lemma synthesize_ends_only_on_success:
  assumes "snd (fst (synthesize V phrase voice (ta, tw))) = None"
  shows "\<exists>d ta1 tw1 s.
           tts_get_client V (ta, tw) = (Inr d, ta1, tw1) \<and>
           text_to_speech_stream V tw1 d (synthesize_kwargs ta phrase voice) = Inr s \<and>
           stream_fault s = None"
proof -
  obtain g ta1 tw1 where g: "tts_get_client V (ta, tw) = (g, ta1, tw1)"
    by (metis prod_cases3)
  with assms obtain d where d: "g = Inr d"
    by (cases g) (simp_all add: synthesize_def)
  from assms g d obtain s where
    s: "text_to_speech_stream V tw1 d (synthesize_kwargs ta phrase voice) = Inr s"
    by (cases "text_to_speech_stream V tw1 d (synthesize_kwargs ta phrase voice)")
       (simp_all add: synthesize_ready)
  from assms g d s have "stream_fault s = None"
    by (simp add: synthesize_ready)
  with g d s show ?thesis by blast
qed

text \<open>
  Claim C6. With the client at hand, a failure of the vendor's transcription call, of
  the streaming call, or of the stream while it is iterated, is logged once at level
  \<open>error\<close> with the text of the exception, and the same exception reaches the caller.
  The vendor is called once: there is no retry, and the chunks yielded before a failure of
  the stream are all the caller gets. A transcription result with no text (\<open>None\<close> or
  the empty string) is no failure: \<open>transcribe\<close> returns the empty string and logs
  nothing. No failure is swallowed: \<open>transcribe\<close> returns a string, and the iteration
  of \<open>synthesize\<close> ends without an exception, only when the client was obtained and
  the vendor call (and the stream) raised nothing.
\<close>

theorem vendor_failures_are_logged_and_reraised:
  "(stt_get_client V (sa, sw) = (Inr c, sa', sw') \<and> get_wav_data audio 16000 2 = Inr wav \<longrightarrow>
      (\<forall>e. speech_to_text_convert V sw' c (transcribe_kwargs sa wav) = Inl e \<longrightarrow>
         transcribe V audio (sa, sw) =
           (Inl e, sa',
            sw' @ [Convert c (transcribe_kwargs sa wav),
                   Log (py ''error'') (py ''ElevenLabs STT transcription failed: '' @ exc_str e)])) \<and>
      (\<forall>r. speech_to_text_convert V sw' c (transcribe_kwargs sa wav) = Inr r \<and>
           (result_text r = None \<or> result_text r = Some []) \<longrightarrow>
         transcribe V audio (sa, sw) = (Inr [], sa', sw' @ [Convert c (transcribe_kwargs sa wav)]))) \<and>
   (tts_get_client V (ta, tw) = (Inr d, ta', tw') \<longrightarrow>
      (\<forall>e. text_to_speech_stream V tw' d (synthesize_kwargs ta phrase voice) = Inl e \<longrightarrow>
         synthesize V phrase voice (ta, tw) =
           (([], Some e), ta',
            tw' @ [Stream d (synthesize_kwargs ta phrase voice),
                   Log (py ''error'') (py ''ElevenLabs TTS synthesis failed: '' @ exc_str e)])) \<and>
      (\<forall>s e. text_to_speech_stream V tw' d (synthesize_kwargs ta phrase voice) = Inr s \<and>
             stream_fault s = Some e \<longrightarrow>
         synthesize V phrase voice (ta, tw) =
           ((filter (\<lambda>chunk. \<exists>b. chunk = PBytes b \<and> b \<noteq> []) (stream_items s), Some e), ta',
            tw' @ [Stream d (synthesize_kwargs ta phrase voice),
                   Log (py ''error'') (py ''ElevenLabs TTS synthesis failed: '' @ exc_str e)]))) \<and>
   (\<forall>out. fst (transcribe V audio (sa, sw)) = Inr out \<longrightarrow>
      (\<exists>c1 sa1 sw1 wav1 r.
         stt_get_client V (sa, sw) = (Inr c1, sa1, sw1) \<and>
         get_wav_data audio 16000 2 = Inr wav1 \<and>
         speech_to_text_convert V sw1 c1 (transcribe_kwargs sa wav1) = Inr r)) \<and>
   (snd (fst (synthesize V phrase voice (ta, tw))) = None \<longrightarrow>
      (\<exists>d1 ta1 tw1 s.
         tts_get_client V (ta, tw) = (Inr d1, ta1, tw1) \<and>
         text_to_speech_stream V tw1 d1 (synthesize_kwargs ta phrase voice) = Inr s \<and>
         stream_fault s = None))"
proof -
  have strip_Nil: "strip [] = []"
    by (simp add: strip_def)
  show ?thesis
    apply (intro conjI)
    subgoal by (auto simp add: transcribe_ready strip_Nil)
    subgoal by (auto simp add: synthesize_ready synthesize_loop_filter)
    subgoal using transcribe_returns_only_on_success by blast
    subgoal using synthesize_ends_only_on_success by blast
    done
qed

theorem vendor_failures_are_logged_and_reraised_witness:
  "transcribe (failing_vendor (PyExc (py ''ApiError'') False (py ''quota exceeded''))) mock_audio
     (ElevenLabsSTTModel (PStr (py ''sk-1'')) None None, []) =
     (Inl (PyExc (py ''ApiError'') False (py ''quota exceeded'')),
      (ElevenLabsSTTModel (PStr (py ''sk-1'')) None None)\<lparr>stt_client := Some 1\<rparr>,
      [Construct (PStr (py ''sk-1'')) (Inr 1),
       Convert 1 (transcribe_kwargs (ElevenLabsSTTModel (PStr (py ''sk-1'')) None None) ''RIFF''),
       Log (py ''error'') (py ''ElevenLabs STT transcription failed: quota exceeded'')]) \<and>
   synthesize
     (mock_vendor \<lparr>result_text = None\<rparr>
        \<lparr>stream_items = [PBytes ''abc'', PBytes ''''],
         stream_fault = Some (PyExc (py ''ApiError'') False (py ''connection reset''))\<rparr>)
     (py ''hello'') (py ''v1'')
     (ElevenLabsTTSModel (PStr (py ''sk-1'')) None None None None None, []) =
     (([PBytes ''abc''], Some (PyExc (py ''ApiError'') False (py ''connection reset''))),
      (ElevenLabsTTSModel (PStr (py ''sk-1'')) None None None None None)\<lparr>tts_client := Some 1\<rparr>,
      [Construct (PStr (py ''sk-1'')) (Inr 1),
       Stream 1 (synthesize_kwargs (ElevenLabsTTSModel (PStr (py ''sk-1'')) None None None None None)
                   (py ''hello'') (py ''v1'')),
       Log (py ''error'') (py ''ElevenLabs TTS synthesis failed: connection reset'')])"
  using vendor_failures_are_logged_and_reraised
    [of "failing_vendor (PyExc (py ''ApiError'') False (py ''quota exceeded''))"
        "ElevenLabsSTTModel (PStr (py ''sk-1'')) None None" "[]" 1
        "(ElevenLabsSTTModel (PStr (py ''sk-1'')) None None)\<lparr>stt_client := Some 1\<rparr>"
        "[Construct (PStr (py ''sk-1'')) (Inr 1)]" mock_audio "''RIFF''"]
    vendor_failures_are_logged_and_reraised
    [of "mock_vendor \<lparr>result_text = None\<rparr>
        \<lparr>stream_items = [PBytes ''abc'', PBytes ''''],
         stream_fault = Some (PyExc (py ''ApiError'') False (py ''connection reset''))\<rparr>"
        _ _ _ _ _ _ _
        "ElevenLabsTTSModel (PStr (py ''sk-1'')) None None None None None" "[]" 1
        "(ElevenLabsTTSModel (PStr (py ''sk-1'')) None None None None None)\<lparr>tts_client := Some 1\<rparr>"
        "[Construct (PStr (py ''sk-1'')) (Inr 1)]" "py ''hello''" "py ''v1''"]
  by (simp add: stt_get_client_def tts_get_client_def failing_vendor_def mock_vendor_def
        mock_audio_def ElevenLabsSTTModel_def ElevenLabsTTSModel_def py_append)

section \<open>Settings of the speech-to-text adapter\<close>

text \<open>
  Claim C8. With a non-empty string as API key, \<open>create_model\<close> for
  \<open>elevenlabs-stt\<close> returns an adapter that holds the key, the model id of the settings
  (\<open>scribe_v1\<close> when there is none) and the language code of the settings, where a
  missing or empty one is \<open>None\<close>; no client is made yet. Every later call of
  \<open>transcribe\<close> on this adapter that reaches the vendor makes one vendor call, with
  the file, always the model id, and the language code exactly when the adapter has
  one.
\<close>

theorem create_model_stt_reads_model_and_language:
  assumes "map_of settings (py ''elevenlabs_api_key'') = Some (PStr k)" and "k \<noteq> []"
  shows "\<exists>m. create_model conv (py ''elevenlabs-stt'') settings w = (Inr (STT m), w) \<and>
           m = \<lparr>stt_name = py ''elevenlabs-stt'',
                stt_api_key = PStr k,
                stt_model_id =
                  dict_get settings (py ''elevenlabs_stt_model_id'') (PStr (py ''scribe_v1'')),
                stt_language_code =
                  (if truthy (dict_get settings (py ''elevenlabs_stt_language'') (PStr []))
                   then dict_get settings (py ''elevenlabs_stt_language'') (PStr [])
                   else PNone),
                stt_client = None\<rparr> \<and>
           (map_of settings (py ''elevenlabs_stt_language'') = None \<or>
            map_of settings (py ''elevenlabs_stt_language'') = Some (PStr []) \<longrightarrow>
              stt_language_code m = PNone) \<and>
           (\<forall>V audio co w0 c m' w' wav.
              stt_get_client V (m\<lparr>stt_client := co\<rparr>, w0) = (Inr c, m', w') \<and>
              get_wav_data audio 16000 2 = Inr wav \<longrightarrow>
              (\<exists>rest.
                 snd (snd (transcribe V audio (m\<lparr>stt_client := co\<rparr>, w0))) =
                   w' @ Convert c
                          \<lparr>kw_file = \<lparr>file_content = wav, file_name = py ''audio.wav''\<rparr>,
                           kw_model_id = stt_model_id m,
                           kw_language_code =
                             (if stt_language_code m = PNone then None
                              else Some (stt_language_code m))\<rparr> # rest \<and>
                 list_all (on_client None) rest))"
proof -
  define l where "l = dict_get settings (py ''elevenlabs_stt_language'') (PStr [])"
  define m where "m = \<lparr>stt_name = py ''elevenlabs-stt'',
                stt_api_key = PStr k,
                stt_model_id =
                  dict_get settings (py ''elevenlabs_stt_model_id'') (PStr (py ''scribe_v1'')),
                stt_language_code = (if truthy l then l else PNone),
                stt_client = None\<rparr>"
  have created: "create_model conv (py ''elevenlabs-stt'') settings w = (Inr (STT m), w)"
    using assms
    by (simp add: create_model_def dict_get_def ElevenLabsSTTModel_def kwarg_def py_or_def
          m_def l_def Let_def)
  have unset: "map_of settings (py ''elevenlabs_stt_language'') = None \<or>
            map_of settings (py ''elevenlabs_stt_language'') = Some (PStr []) \<longrightarrow>
              stt_language_code m = PNone"
    by (auto simp add: m_def l_def dict_get_def)
  have lang: "truthy (stt_language_code m) \<longleftrightarrow> stt_language_code m \<noteq> PNone"
    by (auto simp add: m_def)
  have call: "\<exists>rest.
         snd (snd (transcribe V audio (m\<lparr>stt_client := co\<rparr>, w0))) =
           w' @ Convert c
                  \<lparr>kw_file = \<lparr>file_content = wav, file_name = py ''audio.wav''\<rparr>,
                   kw_model_id = stt_model_id m,
                   kw_language_code =
                     (if stt_language_code m = PNone then None
                      else Some (stt_language_code m))\<rparr> # rest \<and>
         list_all (on_client None) rest"
    if "stt_get_client V (m\<lparr>stt_client := co\<rparr>, w0) = (Inr c, m', w') \<and>
        get_wav_data audio 16000 2 = Inr wav"
    for V audio co w0 c m' w' wav
  proof -
    have kw: "transcribe_kwargs (m\<lparr>stt_client := co\<rparr>) wav =
                \<lparr>kw_file = \<lparr>file_content = wav, file_name = py ''audio.wav''\<rparr>,
                 kw_model_id = stt_model_id m,
                 kw_language_code =
                   (if stt_language_code m = PNone then None
                    else Some (stt_language_code m))\<rparr>"
      by (simp add: transcribe_kwargs_def Let_def lang)
    show ?thesis
      using that kw
      by (simp add: transcribe_ready split: sum.splits)
  qed
  show ?thesis
    using created unset call unfolding m_def l_def by blast
qed

theorem create_model_stt_reads_model_and_language_witness:
  "create_model mock_float (py ''elevenlabs-stt'')
     [(py ''elevenlabs_api_key'', PStr (py ''sk-1'')),
      (py ''elevenlabs_stt_language'', PStr (py ''en''))] [] =
     (Inr (STT \<lparr>stt_name = py ''elevenlabs-stt'', stt_api_key = PStr (py ''sk-1''),
                 stt_model_id = PStr (py ''scribe_v1''), stt_language_code = PStr (py ''en''),
                 stt_client = None\<rparr>), []) \<and>
   snd (snd (transcribe (mock_vendor \<lparr>result_text = Some (py ''hi'')\<rparr>
                           \<lparr>stream_items = [], stream_fault = None\<rparr>) mock_audio
       (\<lparr>stt_name = py ''elevenlabs-stt'', stt_api_key = PStr (py ''sk-1''),
         stt_model_id = PStr (py ''scribe_v1''), stt_language_code = PStr (py ''en''),
         stt_client = None\<rparr>, []))) =
     [Construct (PStr (py ''sk-1'')) (Inr 1),
      Convert 1 \<lparr>kw_file = \<lparr>file_content = ''RIFF'', file_name = py ''audio.wav''\<rparr>,
                 kw_model_id = PStr (py ''scribe_v1''),
                 kw_language_code = Some (PStr (py ''en''))\<rparr>] \<and>
   create_model mock_float (py ''elevenlabs-stt'')
     [(py ''elevenlabs_api_key'', PStr (py ''sk-1'')),
      (py ''elevenlabs_stt_model_id'', PStr (py ''scribe_v2'')),
      (py ''elevenlabs_stt_language'', PStr (py ''''))] [] =
     (Inr (STT \<lparr>stt_name = py ''elevenlabs-stt'', stt_api_key = PStr (py ''sk-1''),
                 stt_model_id = PStr (py ''scribe_v2''), stt_language_code = PNone,
                 stt_client = None\<rparr>), [])"
proof -
  let ?V = "mock_vendor \<lparr>result_text = Some (py ''hi'')\<rparr> \<lparr>stream_items = [], stream_fault = None\<rparr>"
  let ?m = "\<lparr>stt_name = py ''elevenlabs-stt'', stt_api_key = PStr (py ''sk-1''),
             stt_model_id = PStr (py ''scribe_v1''), stt_language_code = PStr (py ''en''),
             stt_client = None\<rparr>"
  have k: "py ''sk-1'' \<noteq> []"
    by (simp add: py_def)
  have 1: "map_of [(py ''elevenlabs_api_key'', PStr (py ''sk-1'')),
      (py ''elevenlabs_stt_language'', PStr (py ''en''))] (py ''elevenlabs_api_key'') =
      Some (PStr (py ''sk-1''))"
    by simp
  have 2: "map_of [(py ''elevenlabs_api_key'', PStr (py ''sk-1'')),
      (py ''elevenlabs_stt_model_id'', PStr (py ''scribe_v2'')),
      (py ''elevenlabs_stt_language'', PStr (py ''''))] (py ''elevenlabs_api_key'') =
      Some (PStr (py ''sk-1''))"
    by simp
  have en: "py ''en'' \<noteq> []"
    by (simp add: py_def)
  note A = create_model_stt_reads_model_and_language [OF 1 k, of mock_float "[]"]
  note B = create_model_stt_reads_model_and_language [OF 2 k, of mock_float "[]"]
  from A obtain m where
    m: "create_model mock_float (py ''elevenlabs-stt'')
          [(py ''elevenlabs_api_key'', PStr (py ''sk-1'')),
           (py ''elevenlabs_stt_language'', PStr (py ''en''))] [] = (Inr (STT m), [])"
       "m = ?m"
    and call: "\<And>V audio co w0 c m' w' wav.
              stt_get_client V (m\<lparr>stt_client := co\<rparr>, w0) = (Inr c, m', w') \<and>
              get_wav_data audio 16000 2 = Inr wav \<Longrightarrow>
              (\<exists>rest.
                 snd (snd (transcribe V audio (m\<lparr>stt_client := co\<rparr>, w0))) =
                   w' @ Convert c
                          \<lparr>kw_file = \<lparr>file_content = wav, file_name = py ''audio.wav''\<rparr>,
                           kw_model_id = stt_model_id m,
                           kw_language_code =
                             (if stt_language_code m = PNone then None
                              else Some (stt_language_code m))\<rparr> # rest \<and>
                 list_all (on_client None) rest)"
    using en by (auto simp add: dict_get_def)
  have "stt_get_client ?V (m\<lparr>stt_client := None\<rparr>, []) =
          (Inr 1, m\<lparr>stt_client := Some 1\<rparr>, [Construct (PStr (py ''sk-1'')) (Inr 1)]) \<and>
        get_wav_data mock_audio 16000 2 = Inr ''RIFF''"
    by (simp add: m(2) stt_get_client_def mock_vendor_def mock_audio_def)
  from call [OF this] obtain rest where
    "snd (snd (transcribe ?V mock_audio (m\<lparr>stt_client := None\<rparr>, []))) =
       [Construct (PStr (py ''sk-1'')) (Inr 1)] @
       Convert 1 \<lparr>kw_file = \<lparr>file_content = ''RIFF'', file_name = py ''audio.wav''\<rparr>,
                 kw_model_id = stt_model_id m,
                 kw_language_code =
                   (if stt_language_code m = PNone then None else Some (stt_language_code m))\<rparr> # rest"
    by blast
  moreover have "length (snd (snd (transcribe ?V mock_audio (m\<lparr>stt_client := None\<rparr>, [])))) = 2"
    by (simp add: m(2) transcribe_def transcribe_try_def stt_get_client_def mock_vendor_def
          mock_audio_def Let_def)
  ultimately have
    "snd (snd (transcribe ?V mock_audio (m\<lparr>stt_client := None\<rparr>, []))) =
       [Construct (PStr (py ''sk-1'')) (Inr 1),
        Convert 1 \<lparr>kw_file = \<lparr>file_content = ''RIFF'', file_name = py ''audio.wav''\<rparr>,
                 kw_model_id = stt_model_id m,
                 kw_language_code =
                   (if stt_language_code m = PNone then None else Some (stt_language_code m))\<rparr>]"
    by simp
  then have T: "snd (snd (transcribe ?V mock_audio (?m, []))) =
     [Construct (PStr (py ''sk-1'')) (Inr 1),
      Convert 1 \<lparr>kw_file = \<lparr>file_content = ''RIFF'', file_name = py ''audio.wav''\<rparr>,
                 kw_model_id = PStr (py ''scribe_v1''),
                 kw_language_code = Some (PStr (py ''en''))\<rparr>]"
    by (simp add: m(2))
  from B have C: "create_model mock_float (py ''elevenlabs-stt'')
     [(py ''elevenlabs_api_key'', PStr (py ''sk-1'')),
      (py ''elevenlabs_stt_model_id'', PStr (py ''scribe_v2'')),
      (py ''elevenlabs_stt_language'', PStr (py ''''))] [] =
     (Inr (STT \<lparr>stt_name = py ''elevenlabs-stt'', stt_api_key = PStr (py ''sk-1''),
                 stt_model_id = PStr (py ''scribe_v2''), stt_language_code = PNone,
                 stt_client = None\<rparr>), [])"
    by (auto simp add: dict_get_def)
  from m T C show ?thesis by simp
qed

section \<open>Settings of the text-to-speech adapter\<close>

lemma py_eq_Nil [simp]: "py s = [] \<longleftrightarrow> s = []"
  by (simp add: py_def)

lemma py_float_PFloat [simp]: "py_float conv (PFloat x) = Inr x"
  by (simp add: py_float_def)

text \<open>
  The voice id of the settings plays no part in \<open>create_model\<close>: two settings that
  differ in \<open>elevenlabs_voice_id\<close> only give the same adapter. And a shaping
  parameter that \<open>float\<close> refuses makes \<open>create_model\<close> fail with the exception of
  \<open>float\<close>, although the API key is there.
\<close>

theorem create_model_tts_ignores_voice_id:
  "create_model mock_float (py ''elevenlabs-tts'')
     [(py ''elevenlabs_api_key'', PStr (py ''sk-1'')),
      (py ''elevenlabs_voice_id'', PStr (py ''EXAVITQu4vr4xnSDxMaL''))] [] =
   create_model mock_float (py ''elevenlabs-tts'')
     [(py ''elevenlabs_api_key'', PStr (py ''sk-1'')),
      (py ''elevenlabs_voice_id'', PStr (py ''JBFqnCBsd6RMkjVDRZzb''))] [] \<and>
   create_model mock_float (py ''elevenlabs-tts'')
     [(py ''elevenlabs_api_key'', PStr (py ''sk-1'')),
      (py ''elevenlabs_stability'', PNone)] [] =
     (Inl (PyExc (py ''TypeError'') False
             (py (''float() argument must be a string or a real number, not '' @
                  [CHR 0x27] @ ''NoneType'' @ [CHR 0x27]))), [])"
  by (simp add: create_model_def dict_get_def py_float_def mock_float_def py_def)

text \<open>
  Claim C2, amended. With a non-empty string as API key, and when \<open>float\<close> accepts
  the three shaping parameters, \<open>create_model\<close> for \<open>elevenlabs-tts\<close> returns an
  adapter that holds the key, the model id of the settings (\<open>eleven_flash_v2_5\<close> when
  there is none), and the stability, similarity boost and style of the settings coerced by
  \<open>float\<close> (0.5, 0.75 and 0.0 when there is none). It does not read the voice id:
  settings that agree on every key but \<open>elevenlabs_voice_id\<close> give the same result.
\<close>

theorem create_model_tts_reads_model_and_shaping:
  assumes "map_of settings (py ''elevenlabs_api_key'') = Some (PStr k)" and "k \<noteq> []"
      and "py_float conv (dict_get settings (py ''elevenlabs_stability'') (PFloat (Finite 0.5))) =
             Inr stability"
      and "py_float conv (dict_get settings (py ''elevenlabs_similarity_boost'') (PFloat (Finite 0.75))) =
             Inr similarity_boost"
      and "py_float conv (dict_get settings (py ''elevenlabs_style'') (PFloat (Finite 0))) =
             Inr style"
  shows "create_model conv (py ''elevenlabs-tts'') settings w =
           (Inr (TTS \<lparr>tts_name = py ''elevenlabs-tts'',
                       tts_api_key = PStr k,
                       tts_model_id =
                         dict_get settings (py ''elevenlabs_model_id'') (PStr (py ''eleven_flash_v2_5'')),
                       tts_stability = PFloat stability,
                       tts_similarity_boost = PFloat similarity_boost,
                       tts_style = PFloat style,
                       tts_use_speaker_boost = PBool True,
                       tts_client = None\<rparr>), w) \<and>
         (\<forall>settings'.
            (\<forall>key. key \<noteq> py ''elevenlabs_voice_id'' \<longrightarrow> map_of settings' key = map_of settings key) \<longrightarrow>
            create_model conv (py ''elevenlabs-tts'') settings' w =
            create_model conv (py ''elevenlabs-tts'') settings w)"
proof (intro conjI allI impI)
  show "create_model conv (py ''elevenlabs-tts'') settings w =
           (Inr (TTS \<lparr>tts_name = py ''elevenlabs-tts'',
                       tts_api_key = PStr k,
                       tts_model_id =
                         dict_get settings (py ''elevenlabs_model_id'') (PStr (py ''eleven_flash_v2_5'')),
                       tts_stability = PFloat stability,
                       tts_similarity_boost = PFloat similarity_boost,
                       tts_style = PFloat style,
                       tts_use_speaker_boost = PBool True,
                       tts_client = None\<rparr>), w)"
    using assms
    by (simp add: create_model_def ElevenLabsTTSModel_def kwarg_def Let_def)
       (simp add: dict_get_def)
next
  fix settings'
  assume same: "\<forall>key. key \<noteq> py ''elevenlabs_voice_id'' \<longrightarrow> map_of settings' key = map_of settings key"
  have "dict_get settings' (py key) d = dict_get settings (py key) d"
    if "key \<noteq> ''elevenlabs_voice_id''" for key d
    using same that by (simp add: dict_get_def)
  then show "create_model conv (py ''elevenlabs-tts'') settings' w =
            create_model conv (py ''elevenlabs-tts'') settings w"
    by (simp add: create_model_def Let_def cong: sum.case_cong if_cong)
qed

theorem create_model_tts_reads_model_and_shaping_witness:
  "create_model mock_float (py ''elevenlabs-tts'')
     [(py ''elevenlabs_api_key'', PStr (py ''sk-1'')),
      (py ''elevenlabs_stability'', PInt 1),
      (py ''elevenlabs_voice_id'', PStr (py ''EXAVITQu4vr4xnSDxMaL''))] [] =
     (Inr (TTS \<lparr>tts_name = py ''elevenlabs-tts'',
                 tts_api_key = PStr (py ''sk-1''),
                 tts_model_id = PStr (py ''eleven_flash_v2_5''),
                 tts_stability = PFloat (Finite 1),
                 tts_similarity_boost = PFloat (Finite 0.75),
                 tts_style = PFloat (Finite 0),
                 tts_use_speaker_boost = PBool True,
                 tts_client = None\<rparr>), [])"
proof -
  let ?S = "[(py ''elevenlabs_api_key'', PStr (py ''sk-1'')),
      (py ''elevenlabs_stability'', PInt 1),
      (py ''elevenlabs_voice_id'', PStr (py ''EXAVITQu4vr4xnSDxMaL''))]"
  have 1: "map_of ?S (py ''elevenlabs_api_key'') = Some (PStr (py ''sk-1''))"
    by simp
  have 2: "py ''sk-1'' \<noteq> []"
    by (simp add: py_def)
  have 3: "py_float mock_float (dict_get ?S (py ''elevenlabs_stability'') (PFloat (Finite 0.5))) =
             Inr (Finite 1)"
    by (simp add: dict_get_def py_float_def mock_float_def)
  have 4: "py_float mock_float (dict_get ?S (py ''elevenlabs_similarity_boost'') (PFloat (Finite 0.75))) =
             Inr (Finite 0.75)"
    by (simp add: dict_get_def)
  have 5: "py_float mock_float (dict_get ?S (py ''elevenlabs_style'') (PFloat (Finite 0))) =
             Inr (Finite 0)"
    by (simp add: dict_get_def)
  from create_model_tts_reads_model_and_shaping [OF 1 2 3 4 5, of "[]"]
  show ?thesis
    by (simp add: dict_get_def)
qed

text \<open>
  Claim C9. Every text-to-speech adapter that \<open>create_model\<close> returns has its
  speaker boost flag \<open>True\<close>, whatever the settings hold. Every \<open>synthesize\<close> call on
  this adapter, with or without a cached client, that obtains the client makes the
  vendor's streaming call, with the text and the voice of the call and with
  \<open>use_speaker_boost = True\<close> in its voice settings, and makes no other vendor call. A
  sequence of \<open>synthesize\<close> calls changes nothing of the adapter but its cached client,
  so this holds for each call of the sequence, and every streaming call in its trace
  sends the flag \<open>True\<close>. Only the constructor of the adapter, called with the flag,
  sets another value.
\<close>

theorem create_model_tts_speaker_boost:
  assumes "create_model conv (py ''elevenlabs-tts'') settings w = (Inr m, w1)"
  shows "(\<exists>t. m = TTS t \<and> tts_use_speaker_boost t = PBool True \<and>
            (\<forall>V phrase voice co w0 c t' w'.
               tts_get_client V (t\<lparr>tts_client := co\<rparr>, w0) = (Inr c, t', w') \<longrightarrow>
               (\<exists>kw rest.
                  snd (snd (synthesize V phrase voice (t\<lparr>tts_client := co\<rparr>, w0))) =
                    w' @ Stream c kw # rest \<and>
                  kw_text kw = phrase \<and> kw_voice_id kw = voice \<and>
                  vs_use_speaker_boost (kw_voice_settings kw) = PBool True \<and>
                  list_all (on_client None) rest)) \<and>
            (\<forall>V calls co w0.
               \<exists>co'. fst (tts_calls V calls (t\<lparr>tts_client := co\<rparr>, w0)) = t\<lparr>tts_client := co'\<rparr>) \<and>
            (\<forall>V calls co w0.
               \<exists>evs. snd (tts_calls V calls (t\<lparr>tts_client := co\<rparr>, w0)) = w0 @ evs \<and>
                     list_all (sends_boost (PBool True)) evs)) \<and>
         (\<forall>api_key model_id stability similarity_boost style flag.
            tts_use_speaker_boost
              (ElevenLabsTTSModel api_key model_id stability similarity_boost style (Some flag)) =
            flag)"
proof -
  from assms obtain t where t: "m = TTS t" "tts_use_speaker_boost t = PBool True"
    by (auto simp add: create_model_def ElevenLabsTTSModel_def kwarg_def Let_def
          split: if_splits sum.splits)
  have sends: "\<exists>kw rest.
          snd (snd (synthesize V phrase voice (t\<lparr>tts_client := co\<rparr>, w0))) =
            w' @ Stream c kw # rest \<and>
          kw_text kw = phrase \<and> kw_voice_id kw = voice \<and>
          vs_use_speaker_boost (kw_voice_settings kw) = PBool True \<and>
          list_all (on_client None) rest"
    if g: "tts_get_client V (t\<lparr>tts_client := co\<rparr>, w0) = (Inr c, t', w')"
    for V phrase voice co w0 c t' w'
  proof -
    let ?kw = "synthesize_kwargs (t\<lparr>tts_client := co\<rparr>) phrase voice"
    have kw: "kw_text ?kw = phrase" "kw_voice_id ?kw = voice"
      "vs_use_speaker_boost (kw_voice_settings ?kw) = PBool True"
      using t(2) by (simp_all add: synthesize_kwargs_def)
    have "\<exists>rest. snd (snd (synthesize V phrase voice (t\<lparr>tts_client := co\<rparr>, w0))) =
            w' @ Stream c ?kw # rest \<and> list_all (on_client None) rest"
      using g by (simp add: synthesize_ready split: sum.splits option.splits)
    with kw show ?thesis by blast
  qed
  have run: "(\<exists>co'. fst (tts_calls V calls (t\<lparr>tts_client := co\<rparr>, w0)) = t\<lparr>tts_client := co'\<rparr>) \<and>
             (\<exists>evs. snd (tts_calls V calls (t\<lparr>tts_client := co\<rparr>, w0)) = w0 @ evs \<and>
                list_all (sends_boost (PBool True)) evs)" for V calls co w0
  proof -
    obtain a' w' where r: "tts_calls V calls (t\<lparr>tts_client := co\<rparr>, w0) = (a', w')"
      by (cases "tts_calls V calls (t\<lparr>tts_client := co\<rparr>, w0)")
    from tts_calls_run [OF r] obtain evs where
      e: "w' = w0 @ evs" "a' = t\<lparr>tts_client := co\<rparr>\<lparr>tts_client := tts_client a'\<rparr>"
         "list_all (sends_boost (tts_use_speaker_boost (t\<lparr>tts_client := co\<rparr>))) evs"
      by blast
    from e(2) have "a' = t\<lparr>tts_client := tts_client a'\<rparr>"
      by simp
    then have "\<exists>co'. fst (tts_calls V calls (t\<lparr>tts_client := co\<rparr>, w0)) = t\<lparr>tts_client := co'\<rparr>"
      using r by auto
    moreover have "\<exists>evs. snd (tts_calls V calls (t\<lparr>tts_client := co\<rparr>, w0)) = w0 @ evs \<and>
                list_all (sends_boost (PBool True)) evs"
      using r e(1) e(3) t(2) by auto
    ultimately show ?thesis by blast
  qed
  from t sends run have "\<exists>t. m = TTS t \<and> tts_use_speaker_boost t = PBool True \<and>
            (\<forall>V phrase voice co w0 c t' w'.
               tts_get_client V (t\<lparr>tts_client := co\<rparr>, w0) = (Inr c, t', w') \<longrightarrow>
               (\<exists>kw rest.
                  snd (snd (synthesize V phrase voice (t\<lparr>tts_client := co\<rparr>, w0))) =
                    w' @ Stream c kw # rest \<and>
                  kw_text kw = phrase \<and> kw_voice_id kw = voice \<and>
                  vs_use_speaker_boost (kw_voice_settings kw) = PBool True \<and>
                  list_all (on_client None) rest)) \<and>
            (\<forall>V calls co w0.
               \<exists>co'. fst (tts_calls V calls (t\<lparr>tts_client := co\<rparr>, w0)) = t\<lparr>tts_client := co'\<rparr>) \<and>
            (\<forall>V calls co w0.
               \<exists>evs. snd (tts_calls V calls (t\<lparr>tts_client := co\<rparr>, w0)) = w0 @ evs \<and>
                     list_all (sends_boost (PBool True)) evs)"
    by (intro exI [of _ t] conjI allI impI) blast+
  then show ?thesis
    by (simp add: ElevenLabsTTSModel_def kwarg_def)
qed

theorem create_model_tts_speaker_boost_witness:
  "(case fst (create_model mock_float (py ''elevenlabs-tts'')
               [(py ''elevenlabs_api_key'', PStr (py ''sk-1'')),
                (py ''elevenlabs_use_speaker_boost'', PBool False)] []) of
      Inr (TTS t) \<Rightarrow>
        tts_use_speaker_boost t = PBool True \<and>
        snd (snd (synthesize (mock_vendor \<lparr>result_text = None\<rparr>
                                \<lparr>stream_items = [PBytes ''abc''], stream_fault = None\<rparr>)
                    (py ''hello'') (py ''v1'') (t, []))) =
          [Construct (PStr (py ''sk-1'')) (Inr 1),
           Stream 1 \<lparr>kw_text = py ''hello'', kw_voice_id = py ''v1'',
                     kw_tts_model_id = PStr (py ''eleven_flash_v2_5''),
                     kw_output_format = py ''pcm_24000'',
                     kw_voice_settings =
                       \<lparr>vs_stability = PFloat (Finite 0.5),
                        vs_similarity_boost = PFloat (Finite 0.75),
                        vs_style = PFloat (Finite 0),
                        vs_use_speaker_boost = PBool True\<rparr>\<rparr>] \<and>
        list_all (sends_boost (PBool True))
          (snd (tts_calls (mock_vendor \<lparr>result_text = None\<rparr>
                             \<lparr>stream_items = [PBytes ''abc''], stream_fault = None\<rparr>)
                  [(py ''hello'', py ''v1''), (py ''again'', py ''v2'')] (t, [])))
    | _ \<Rightarrow> False)"
proof -
  let ?S = "[(py ''elevenlabs_api_key'', PStr (py ''sk-1'')),
             (py ''elevenlabs_use_speaker_boost'', PBool False)]"
  let ?V = "mock_vendor \<lparr>result_text = None\<rparr> \<lparr>stream_items = [PBytes ''abc''], stream_fault = None\<rparr>"
  obtain m where c: "create_model mock_float (py ''elevenlabs-tts'') ?S [] = (Inr m, [])"
    by (simp add: create_model_def dict_get_def py_def)
  from create_model_tts_speaker_boost [OF c] obtain t where
    t: "m = TTS t" "tts_use_speaker_boost t = PBool True"
    and call: "\<And>V phrase voice co w0 c t' w'.
               tts_get_client V (t\<lparr>tts_client := co\<rparr>, w0) = (Inr c, t', w') \<Longrightarrow>
               (\<exists>kw rest.
                  snd (snd (synthesize V phrase voice (t\<lparr>tts_client := co\<rparr>, w0))) =
                    w' @ Stream c kw # rest \<and>
                  kw_text kw = phrase \<and> kw_voice_id kw = voice \<and>
                  vs_use_speaker_boost (kw_voice_settings kw) = PBool True \<and>
                  list_all (on_client None) rest)"
    and sent: "\<And>V calls co w0.
              \<exists>evs. snd (tts_calls V calls (t\<lparr>tts_client := co\<rparr>, w0)) = w0 @ evs \<and>
                    list_all (sends_boost (PBool True)) evs"
    by blast
  have tv: "t = ElevenLabsTTSModel (PStr (py ''sk-1'')) (Some (PStr (py ''eleven_flash_v2_5'')))
                  (Some (PFloat (Finite 0.5))) (Some (PFloat (Finite 0.75)))
                  (Some (PFloat (Finite 0))) None"
    using c t(1) by (auto simp add: create_model_def dict_get_def Let_def)
  then have none: "t\<lparr>tts_client := None\<rparr> = t"
    by (simp add: ElevenLabsTTSModel_def)
  have g: "tts_get_client ?V (t\<lparr>tts_client := None\<rparr>, []) =
             (Inr 1, t\<lparr>tts_client := Some 1\<rparr>, [Construct (PStr (py ''sk-1'')) (Inr 1)])"
    by (simp add: tv tts_get_client_def mock_vendor_def ElevenLabsTTSModel_def)
  from call [OF g, of "py ''hello''" "py ''v1''"] obtain kw rest where
    tr: "snd (snd (synthesize ?V (py ''hello'') (py ''v1'') (t, []))) =
           [Construct (PStr (py ''sk-1'')) (Inr 1)] @ Stream 1 kw # rest"
    and flag: "vs_use_speaker_boost (kw_voice_settings kw) = PBool True"
    using none by auto
  have ev: "snd (snd (synthesize ?V (py ''hello'') (py ''v1'') (t, []))) =
          [Construct (PStr (py ''sk-1'')) (Inr 1),
           Stream 1 \<lparr>kw_text = py ''hello'', kw_voice_id = py ''v1'',
                     kw_tts_model_id = PStr (py ''eleven_flash_v2_5''),
                     kw_output_format = py ''pcm_24000'',
                     kw_voice_settings =
                       \<lparr>vs_stability = PFloat (Finite 0.5),
                        vs_similarity_boost = PFloat (Finite 0.75),
                        vs_style = PFloat (Finite 0),
                        vs_use_speaker_boost = PBool True\<rparr>\<rparr>]"
    using tr flag
    by (simp add: tv synthesize_def synthesize_try_def synthesize_kwargs_def tts_get_client_def
          mock_vendor_def ElevenLabsTTSModel_def kwarg_def Let_def)
  from sent [of ?V "[(py ''hello'', py ''v1''), (py ''again'', py ''v2'')]" None "[]"] none
  have "list_all (sends_boost (PBool True))
          (snd (tts_calls ?V [(py ''hello'', py ''v1''), (py ''again'', py ''v2'')] (t, [])))"
    by auto
  with c t ev show ?thesis by simp
qed

section \<open>The client is created once\<close>

text \<open>
  Claim C5. For both adapters: \<open>_get_client\<close> returns the cached client when there
  is one, touching nothing; when there is none and the vendor's constructor succeeds, it
  calls the constructor with the stored credential and caches the client. Over any
  sequence of calls on one adapter, at most one client is constructed, and exactly one if
  and only if the adapter started without a client and ends with one; once a client is
  cached it stays, and the constructor is not called again; every constructor call is
  given the stored credential; and every vendor call is made on the client that is
  cached.
\<close>

theorem client_is_lazy_singleton:
  "(\<forall>c. stt_client sa = Some c \<longrightarrow> stt_get_client V (sa, sw) = (Inr c, sa, sw)) \<and>
   (\<forall>c. stt_client sa = None \<and> import_client V sw = None \<and>
        ElevenLabs V sw (stt_api_key sa) = Inr c \<longrightarrow>
        stt_get_client V (sa, sw) =
          (Inr c, sa\<lparr>stt_client := Some c\<rparr>, sw @ [Construct (stt_api_key sa) (Inr c)])) \<and>
   (stt_calls V audios (sa, sw) = (sa', sw') \<longrightarrow>
      (\<exists>evs. sw' = sw @ evs \<and>
         constructions evs \<le> 1 \<and>
         constructions evs = (if stt_client sa = None \<and> stt_client sa' \<noteq> None then 1 else 0) \<and>
         (stt_client sa \<noteq> None \<longrightarrow> stt_client sa' = stt_client sa \<and> filter is_construct evs = []) \<and>
         list_all (constructs_from (stt_api_key sa)) evs \<and>
         list_all (on_client (stt_client sa')) evs)) \<and>
   (\<forall>c. tts_client ta = Some c \<longrightarrow> tts_get_client V (ta, tw) = (Inr c, ta, tw)) \<and>
   (\<forall>c. tts_client ta = None \<and> import_client V tw = None \<and>
        ElevenLabs V tw (tts_api_key ta) = Inr c \<longrightarrow>
        tts_get_client V (ta, tw) =
          (Inr c, ta\<lparr>tts_client := Some c\<rparr>, tw @ [Construct (tts_api_key ta) (Inr c)])) \<and>
   (tts_calls V calls (ta, tw) = (ta', tw') \<longrightarrow>
      (\<exists>evs. tw' = tw @ evs \<and>
         constructions evs \<le> 1 \<and>
         constructions evs = (if tts_client ta = None \<and> tts_client ta' \<noteq> None then 1 else 0) \<and>
         (tts_client ta \<noteq> None \<longrightarrow> tts_client ta' = tts_client ta \<and> filter is_construct evs = []) \<and>
         list_all (constructs_from (tts_api_key ta)) evs \<and>
         list_all (on_client (tts_client ta')) evs))"
proof (intro conjI impI allI)
  assume "stt_calls V audios (sa, sw) = (sa', sw')"
  from stt_calls_run [OF this] obtain evs where
    "sw' = sw @ evs" and l: "lazy_client (stt_api_key sa) (stt_client sa) (stt_client sa') evs"
    by blast
  moreover from l have "constructions evs \<le> 1"
    by (rule lazy_client_at_most_once)
  ultimately show "\<exists>evs. sw' = sw @ evs \<and>
         constructions evs \<le> 1 \<and>
         constructions evs = (if stt_client sa = None \<and> stt_client sa' \<noteq> None then 1 else 0) \<and>
         (stt_client sa \<noteq> None \<longrightarrow> stt_client sa' = stt_client sa \<and> filter is_construct evs = []) \<and>
         list_all (constructs_from (stt_api_key sa)) evs \<and>
         list_all (on_client (stt_client sa')) evs"
    unfolding lazy_client_def by blast
next
  assume "tts_calls V calls (ta, tw) = (ta', tw')"
  from tts_calls_run [OF this] obtain evs where
    "tw' = tw @ evs" and l: "lazy_client (tts_api_key ta) (tts_client ta) (tts_client ta') evs"
    by blast
  moreover from l have "constructions evs \<le> 1"
    by (rule lazy_client_at_most_once)
  ultimately show "\<exists>evs. tw' = tw @ evs \<and>
         constructions evs \<le> 1 \<and>
         constructions evs = (if tts_client ta = None \<and> tts_client ta' \<noteq> None then 1 else 0) \<and>
         (tts_client ta \<noteq> None \<longrightarrow> tts_client ta' = tts_client ta \<and> filter is_construct evs = []) \<and>
         list_all (constructs_from (tts_api_key ta)) evs \<and>
         list_all (on_client (tts_client ta')) evs"
    unfolding lazy_client_def by blast
qed (simp_all add: stt_get_client_def tts_get_client_def)

theorem client_is_lazy_singleton_witness:
  "snd (stt_calls
          (flaky_vendor (PyExc (py ''RuntimeError'') False (py ''down''))
             \<lparr>result_text = None\<rparr> \<lparr>stream_items = [], stream_fault = None\<rparr>)
          [mock_audio, mock_audio, mock_audio]
          (ElevenLabsSTTModel (PStr (py ''sk-1'')) None None, [])) =
     [Construct (PStr (py ''sk-1'')) (Inl (PyExc (py ''RuntimeError'') False (py ''down''))),
      Log (py ''error'') (py ''Failed to initialize ElevenLabs client: down''),
      Construct (PStr (py ''sk-1'')) (Inr 7),
      Convert 7 (transcribe_kwargs (ElevenLabsSTTModel (PStr (py ''sk-1'')) None None) ''RIFF''),
      Convert 7 (transcribe_kwargs (ElevenLabsSTTModel (PStr (py ''sk-1'')) None None) ''RIFF'')] \<and>
   constructions
     (snd (stt_calls
          (flaky_vendor (PyExc (py ''RuntimeError'') False (py ''down''))
             \<lparr>result_text = None\<rparr> \<lparr>stream_items = [], stream_fault = None\<rparr>)
          [mock_audio, mock_audio, mock_audio]
          (ElevenLabsSTTModel (PStr (py ''sk-1'')) None None, []))) = 1 \<and>
   constructions
     (snd (tts_calls
          (mock_vendor \<lparr>result_text = None\<rparr>
             \<lparr>stream_items = [PBytes ''abc''], stream_fault = None\<rparr>)
          [(py ''hello'', py ''v1''), (py ''again'', py ''v2'')]
          (ElevenLabsTTSModel (PStr (py ''sk-1'')) None None None None None, []))) = 1"
proof -
  let ?V = "flaky_vendor (PyExc (py ''RuntimeError'') False (py ''down''))
             \<lparr>result_text = None\<rparr> \<lparr>stream_items = [], stream_fault = None\<rparr>"
  let ?W = "mock_vendor \<lparr>result_text = None\<rparr>
             \<lparr>stream_items = [PBytes ''abc''], stream_fault = None\<rparr>"
  let ?sa = "ElevenLabsSTTModel (PStr (py ''sk-1'')) None None"
  let ?ta = "ElevenLabsTTSModel (PStr (py ''sk-1'')) None None None None None"
  let ?trace = "[Construct (PStr (py ''sk-1'')) (Inl (PyExc (py ''RuntimeError'') False (py ''down''))),
      Log (py ''error'') (py ''Failed to initialize ElevenLabs client: down''),
      Construct (PStr (py ''sk-1'')) (Inr 7),
      Convert 7 (transcribe_kwargs ?sa ''RIFF''),
      Convert 7 (transcribe_kwargs ?sa ''RIFF'')]"
  have s: "stt_calls ?V [mock_audio, mock_audio, mock_audio] (?sa, []) =
             (?sa\<lparr>stt_client := Some 7\<rparr>, ?trace)"
    by (simp add: transcribe_def transcribe_try_def stt_get_client_def get_client_except_def
          flaky_vendor_def mock_audio_def ElevenLabsSTTModel_def transcribe_kwargs_def
          Let_def py_append)
  obtain ta' tw' where t: "tts_calls ?W [(py ''hello'', py ''v1''), (py ''again'', py ''v2'')] (?ta, []) = (ta', tw')"
    and c: "tts_client ta' = Some 1"
    by (simp add: synthesize_def synthesize_try_def tts_get_client_def mock_vendor_def
          ElevenLabsTTSModel_def Let_def)
  note stt = client_is_lazy_singleton
    [of ?sa ?V "[]" "[mock_audio, mock_audio, mock_audio]" "?sa\<lparr>stt_client := Some 7\<rparr>" ?trace,
     THEN conjunct2, THEN conjunct2, THEN conjunct1, rule_format, OF s]
  note tts = client_is_lazy_singleton
    [of _ ?W _ _ _ _ ?ta "[]" "[(py ''hello'', py ''v1''), (py ''again'', py ''v2'')]" ta' tw',
     THEN conjunct2, THEN conjunct2, THEN conjunct2, THEN conjunct2, THEN conjunct2,
     rule_format, OF t]
  from stt have "constructions ?trace = 1"
    by (simp add: ElevenLabsSTTModel_def)
  moreover from tts c have "constructions tw' = 1"
    by (simp add: ElevenLabsTTSModel_def)
  ultimately show ?thesis
    using s t by simp
qed

end
